theory Spec2Isabelle
  imports Complex_Main "HOL-Library.AList"
begin

section \<open>Python values, errors and text primitives\<close>

text \<open>
  The two scripts \<^verbatim>\<open>cipres_data_parse.py\<close> and \<^verbatim>\<open>post_garli.py\<close> read text
  files line by line. A file is modelled by the list of lines that Python's file
  iterator yields (each line may still carry its line terminator; every extractor
  strips it). A character is a code point below 256. The files are opened in mode
  \<^verbatim>\<open>'rU'\<close>, which the interpreters before Python 3.11 accept; opening a file is
  taken to succeed.

  Several result variables hold an \<^verbatim>\<open>int\<close> default that is later overwritten by a
  captured \<^verbatim>\<open>str\<close>; \<open>pyval\<close> keeps the two apart, as Python's \<^verbatim>\<open>==\<close> does
  (\<^verbatim>\<open>'0' == 0\<close> is \<^verbatim>\<open>False\<close>).
\<close>

datatype pyval = PInt int | PStr string

datatype error = ValueError | IndexError | NameError | KeyError

text \<open>\<^verbatim>\<open>str.isspace\<close>, also the class \<^verbatim>\<open>\s\<close> of a str pattern, below code point 256.\<close>

definition py_isspace :: "char \<Rightarrow> bool" where
  "py_isspace c = (c \<in> set [CHR 0x09, CHR 0x0A, CHR 0x0B, CHR 0x0C, CHR 0x0D,
      CHR 0x1C, CHR 0x1D, CHR 0x1E, CHR 0x1F, CHR 0x20, CHR 0x85, CHR 0xA0])"

text \<open>The class \<^verbatim>\<open>\d\<close> of a str pattern (decimal digits), below code point 256.\<close>

definition py_isdecimal :: "char \<Rightarrow> bool" where
  "py_isdecimal c = (c \<in> set ''0123456789'')"

text \<open>
  \<^verbatim>\<open>str.isdigit\<close>: true for a non-empty string of digit characters. Below code
  point 256 these are the decimal digits and the superscripts two, three and one.
\<close>

definition py_isdigit_char :: "char \<Rightarrow> bool" where
  "py_isdigit_char c = (py_isdecimal c \<or> c \<in> set [CHR 0xB2, CHR 0xB3, CHR 0xB9])"

definition isdigit :: "string \<Rightarrow> bool" where
  "isdigit s = (s \<noteq> [] \<and> list_all py_isdigit_char s)"

text \<open>\<^verbatim>\<open>str(v)\<close> is only ever tested with \<^verbatim>\<open>isdigit\<close>; for an int it is its decimal text.\<close>

fun str_isdigit :: "pyval \<Rightarrow> bool" where
  "str_isdigit (PInt i) = (0 \<le> i)"
| "str_isdigit (PStr s) = isdigit s"

definition rstrip :: "string \<Rightarrow> string" where
  "rstrip s = rev (dropWhile py_isspace (rev s))"

definition strip :: "string \<Rightarrow> string" where
  "strip s = dropWhile py_isspace (rstrip s)"

fun startswith :: "string \<Rightarrow> string \<Rightarrow> bool" where
  "startswith [] s = True"
| "startswith (p # ps) [] = False"
| "startswith (p # ps) (c # cs) = (p = c \<and> startswith ps cs)"

definition endswith :: "string \<Rightarrow> string \<Rightarrow> bool" where
  "endswith suffix s = startswith (rev suffix) (rev s)"

text \<open>\<^verbatim>\<open>line.find(sub) >= 0\<close>: the substring test.\<close>

fun contains :: "string \<Rightarrow> string \<Rightarrow> bool" where
  "contains sub [] = (sub = [])"
| "contains sub (c # cs) = (startswith sub (c # cs) \<or> contains sub cs)"

text \<open>\<^verbatim>\<open>line.split(sep)\<close> with a one-character separator: one more piece than separators.\<close>

fun split_on :: "char \<Rightarrow> string \<Rightarrow> string list" where
  "split_on sep [] = [[]]"
| "split_on sep (c # cs) =
     (if c = sep then [] # split_on sep cs
      else (case split_on sep cs of
              [] \<Rightarrow> [[c]]
            | w # ws \<Rightarrow> (c # w) # ws))"

text \<open>\<^verbatim>\<open>line.split()\<close>: the maximal runs of non-whitespace text, in order.\<close>

fun split_ws :: "string \<Rightarrow> string \<Rightarrow> string list" where
  "split_ws cur [] = (if cur = [] then [] else [cur])"
| "split_ws cur (c # cs) =
     (if py_isspace c then (if cur = [] then split_ws [] cs else cur # split_ws [] cs)
      else split_ws (cur @ [c]) cs)"

definition pysplit :: "string \<Rightarrow> string list" where
  "pysplit s = split_ws [] s"

text \<open>
  \<^verbatim>\<open>int(s)\<close> on the text that \<^verbatim>\<open>process_beast\<close> passes to it (what is left after
  \<^verbatim>\<open>re.sub('\D.*', '', line)\<close>): the value of a non-empty decimal digit string,
  \<^verbatim>\<open>ValueError\<close> on the empty string. The number of digits is not bounded (the
  interpreter's limit on the length of a converted string, where it has one, is
  taken to be switched off).
\<close>

definition digit_val :: "char \<Rightarrow> int" where
  "digit_val c = int (of_char c) - 48"

definition digits_val :: "string \<Rightarrow> int" where
  "digits_val s = foldl (\<lambda>acc c. 10 * acc + digit_val c) 0 s"


section \<open>Regular expressions\<close>

text \<open>
  The patterns of both scripts are sequences of single characters, character
  classes, greedy \<^verbatim>\<open>*\<close> and \<^verbatim>\<open>+\<close> over a class, one capturing group, an
  alternation of literal words and \<^verbatim>\<open>^\<close>. \<open>rmatch\<close> is the backtracking matcher of
  Python's \<^verbatim>\<open>re\<close> on that fragment: it matches the items at the head of the text and
  returns the text captured by the group and the text left after the match.
\<close>

datatype cclass = Any | Space | Digit | NonDigit | Ch char | OneOf string
  | Either cclass cclass

fun cc_ok :: "cclass \<Rightarrow> char \<Rightarrow> bool" where
  "cc_ok Any c = (c \<noteq> CHR 0x0A)"
| "cc_ok Space c = py_isspace c"
| "cc_ok Digit c = py_isdecimal c"
| "cc_ok NonDigit c = (\<not> py_isdecimal c)"
| "cc_ok (Ch x) c = (c = x)"
| "cc_ok (OneOf xs) c = (c \<in> set xs)"
| "cc_ok (Either a b) c = (cc_ok a c \<or> cc_ok b c)"

datatype item = One cclass | Star cclass | Plus cclass | GOpen | GClose
  | Alts "string list" | Bol

definition lit :: "string \<Rightarrow> item list" where
  "lit s = map (\<lambda>c. One (Ch c)) s"

text \<open>
  \<open>rmatch items bol rec cap s\<close>: \<open>bol\<close> says that \<open>s\<close> starts at the beginning of
  the subject, \<open>rec\<close> that the group is open, \<open>cap\<close> is the text captured so far.
\<close>

fun item_weight :: "item \<Rightarrow> nat" where
  "item_weight (Alts ws) = Suc (length ws)"
| "item_weight i = 1"

function (sequential) rmatch ::
  "item list \<Rightarrow> bool \<Rightarrow> bool \<Rightarrow> string \<Rightarrow> string \<Rightarrow> (string \<times> string) option" where
  "rmatch [] bol rec cap s = Some (cap, s)"
| "rmatch (One k # is) bol rec cap [] = None"
| "rmatch (One k # is) bol rec cap (c # cs) =
     (if cc_ok k c then rmatch is False rec (if rec then cap @ [c] else cap) cs else None)"
| "rmatch (Star k # is) bol rec cap [] = rmatch is bol rec cap []"
| "rmatch (Star k # is) bol rec cap (c # cs) =
     (if cc_ok k c
      then (case rmatch (Star k # is) False rec (if rec then cap @ [c] else cap) cs of
              Some r \<Rightarrow> Some r
            | None \<Rightarrow> rmatch is bol rec cap (c # cs))
      else rmatch is bol rec cap (c # cs))"
| "rmatch (Plus k # is) bol rec cap [] = None"
| "rmatch (Plus k # is) bol rec cap (c # cs) =
     (if cc_ok k c then rmatch (Star k # is) False rec (if rec then cap @ [c] else cap) cs
      else None)"
| "rmatch (GOpen # is) bol rec cap s = rmatch is bol True cap s"
| "rmatch (GClose # is) bol rec cap s = rmatch is bol False cap s"
| "rmatch (Alts [] # is) bol rec cap s = None"
| "rmatch (Alts (w # ws) # is) bol rec cap s =
     (if startswith w s
      then (case rmatch is (bol \<and> w = []) rec (if rec then cap @ w else cap) (drop (length w) s) of
              Some r \<Rightarrow> Some r
            | None \<Rightarrow> rmatch (Alts ws # is) bol rec cap s)
      else rmatch (Alts ws # is) bol rec cap s)"
| "rmatch (Bol # is) bol rec cap s = (if bol then rmatch is bol rec cap s else None)"
  by pat_completeness auto

termination
  by (relation "measure (\<lambda>(is, bol, rec, cap, s). sum_list (map item_weight is) + length s)") auto

text \<open>\<^verbatim>\<open>pattern.search(s)\<close>: the match at the leftmost position that has one; the result is group 1.\<close>

fun search_from :: "item list \<Rightarrow> bool \<Rightarrow> string \<Rightarrow> string option" where
  "search_from p bol [] = map_option fst (rmatch p bol False [] [])"
| "search_from p bol (c # cs) =
     (case rmatch p bol False [] (c # cs) of
        Some r \<Rightarrow> Some (fst r)
      | None \<Rightarrow> search_from p False cs)"

definition re_search :: "item list \<Rightarrow> string \<Rightarrow> string option" where
  "re_search p s = search_from p True s"

text \<open>
  \<^verbatim>\<open>re.sub(pattern, '', s)\<close>: every non-overlapping match, leftmost first, is deleted.
  An empty match deletes nothing.
\<close>

fun sub_from :: "item list \<Rightarrow> bool \<Rightarrow> string \<Rightarrow> string" where
  "sub_from p bol [] = []"
| "sub_from p bol (c # cs) =
     (case rmatch p bol False [] (c # cs) of
        None \<Rightarrow> c # sub_from p False cs
      | Some r \<Rightarrow>
          (if length (snd r) < length (c # cs) then sub_from p False (snd r)
           else c # sub_from p False cs))"

definition re_sub :: "item list \<Rightarrow> string \<Rightarrow> string" where
  "re_sub p s = sub_from p True s"

section \<open>cipres\_data\_parse.py: the extractors\<close>

subsection \<open>process\_beast\<close>

record beast_state =
  data_type :: string
  codon_partitioning :: bool
  nu_partitions :: int
  pattern_count :: int

text \<open>\<^verbatim>\<open>'.*alignment.*data[tT]ype\s*=\s*"'\<close>\<close>

definition regex_datatype :: "item list" where
  "regex_datatype = [Star Any] @ lit ''alignment'' @ [Star Any] @ lit ''data'' @
     [One (OneOf ''tT'')] @ lit ''ype'' @
     [Star Space, One (Ch (CHR ''='')), Star Space, One (Ch (CHR 0x22))]"


text \<open>\<^verbatim>\<open>'codon'\<close>\<close>

definition regex_codon :: "item list" where
  "regex_codon = lit ''codon''"

text \<open>The patterns of the inline substitutions: \<^verbatim>\<open>'".*'\<close>, \<^verbatim>\<open>'\s*'\<close> and \<^verbatim>\<open>'\D.*'\<close>.\<close>

definition regex_quote_rest :: "item list" where
  "regex_quote_rest = [One (Ch (CHR 0x22)), Star Any]"

definition regex_spaces :: "item list" where
  "regex_spaces = [Star Space]"


text \<open>
  The loop body reassigns \<^verbatim>\<open>line\<close>: after the dataType branch the variable holds
  the text between the pattern and the next double quote, and the two later tests
  read that text.
\<close>

definition after_datatype :: "string \<Rightarrow> string" where
  "after_datatype line =
     (if re_search regex_datatype line \<noteq> None
      then re_sub regex_quote_rest (re_sub regex_datatype line)
      else line)"

definition set_datatype :: "string \<Rightarrow> beast_state \<Rightarrow> beast_state" where
  "set_datatype line st =
     (if re_search regex_datatype line \<noteq> None
      then st\<lparr>data_type := re_sub regex_spaces (after_datatype line)\<rparr>
      else st)"


definition set_codon :: "string \<Rightarrow> beast_state \<Rightarrow> beast_state" where
  "set_codon line st =
     (if re_search regex_codon line \<noteq> None then st\<lparr>codon_partitioning := True\<rparr> else st)"






subsection \<open>process\_beast2\<close>




subsection \<open>process\_migrate\_parm\<close>

text \<open>
  \<^verbatim>\<open>p1, num_reps = line.split(':')\<close> unpacks a list of exactly two pieces; any
  other length raises \<^verbatim>\<open>ValueError\<close>.
\<close>

fun migrate_parm_loop :: "string list \<Rightarrow> error + pyval" where
  "migrate_parm_loop [] = Inr (PInt 1)"
| "migrate_parm_loop (raw # rest) =
     (let line = rstrip raw
      in if contains ''replicate=YES'' line
         then (case split_on (CHR '':'') line of
                 [p1, num_reps] \<Rightarrow> Inr (PStr num_reps)
               | _ \<Rightarrow> Inl ValueError)
         else migrate_parm_loop rest)"

definition process_migrate_parm :: "string list \<Rightarrow> error + (int \<times> pyval)" where
  "process_migrate_parm file =
     (case migrate_parm_loop file of
        Inl e \<Rightarrow> Inl e
      | Inr num_reps \<Rightarrow> Inr ((if \<not> str_isdigit num_reps then 1 else 0), num_reps))"

subsection \<open>process\_migrate\_infile\<close>

text \<open>The loop body ends in \<^verbatim>\<open>break\<close>: only the first line of the file is read.\<close>

definition migrate_infile_loop :: "string list \<Rightarrow> error + pyval" where
  "migrate_infile_loop file =
     (case file of
        [] \<Rightarrow> Inr (PInt 1)
      | raw # rest \<Rightarrow>
          (let pline = pysplit (strip raw)
           in if 1 < length pline then Inr (PStr (pline ! 1)) else Inl IndexError))"

definition process_migrate_infile :: "string list \<Rightarrow> error + (int \<times> pyval)" where
  "process_migrate_infile file =
     (case migrate_infile_loop file of
        Inl e \<Rightarrow> Inl e
      | Inr num_loci \<Rightarrow> Inr ((if \<not> str_isdigit num_loci then 1 else 0), num_loci))"

subsection \<open>process\_garli\<close>

record garli_state =
  bootreps :: pyval
  searchreps :: pyval
  availmem :: pyval
  have_bootreps :: bool
  have_searchreps :: bool
  have_availmem :: bool

text \<open>\<^verbatim>\<open>'bootstrapreps\s*=\s*(\d+).*'\<close>, \<^verbatim>\<open>'searchreps\s*=\s*(\d+).*'\<close> and
  \<^verbatim>\<open>'.*availablememory\s*=\s*(\d+).*'\<close>\<close>

definition value_tail :: "item list" where
  "value_tail = [Star Space, One (Ch (CHR ''='')), Star Space, GOpen, Plus Digit, GClose, Star Any]"

definition cregex_bootstrapreps :: "item list" where
  "cregex_bootstrapreps = lit ''bootstrapreps'' @ value_tail"

definition cregex_searchreps :: "item list" where
  "cregex_searchreps = lit ''searchreps'' @ value_tail"

definition cregex_availmem :: "item list" where
  "cregex_availmem = [Star Any] @ lit ''availablememory'' @ value_tail"

definition garli_line :: "string \<Rightarrow> garli_state \<Rightarrow> garli_state" where
  "garli_line raw st =
     (let line = strip raw;
          st1 = (if \<not> have_bootreps st
                 then (case re_search cregex_bootstrapreps line of
                         Some g \<Rightarrow> st\<lparr>bootreps := PStr g, have_bootreps := True\<rparr>
                       | None \<Rightarrow> st)
                 else st);
          st2 = (if \<not> have_searchreps st1
                 then (case re_search cregex_searchreps line of
                         Some g \<Rightarrow> st1\<lparr>searchreps := PStr g, have_searchreps := True\<rparr>
                       | None \<Rightarrow> st1)
                 else st1)
      in if \<not> have_availmem st2
         then (case re_search cregex_availmem line of
                 Some g \<Rightarrow> st2\<lparr>availmem := PStr g, have_availmem := True\<rparr>
               | None \<Rightarrow> st2)
         else st2)"

fun garli_loop :: "string list \<Rightarrow> garli_state \<Rightarrow> garli_state" where
  "garli_loop [] st = st"
| "garli_loop (raw # rest) st = garli_loop rest (garli_line raw st)"

definition garli_init :: garli_state where
  "garli_init = \<lparr>bootreps = PInt (- 1), searchreps = PInt (- 1), availmem = PInt (- 1),
     have_bootreps = False, have_searchreps = False, have_availmem = False\<rparr>"

text \<open>
  The result is \<^verbatim>\<open>(err_code, nruns, bootreps, searchreps, availmem)\<close>. The test
  \<^verbatim>\<open>bootreps == 0\<close> compares the captured text with the integer zero.
\<close>

definition process_garli :: "string list \<Rightarrow> int \<times> pyval \<times> pyval \<times> pyval \<times> pyval" where
  "process_garli file =
     (let st = garli_loop file garli_init
      in if \<not> have_bootreps st \<or> \<not> have_searchreps st \<or> \<not> have_availmem st
         then (1, PInt (- 1), bootreps st, searchreps st, availmem st)
         else if bootreps st = PInt 0
              then (0, searchreps st, bootreps st, PInt 1, availmem st)
              else (0, bootreps st, PInt 1, searchreps st, availmem st))"

subsection \<open>process\_bayes\<close>






section \<open>post\_garli.py: the ranking tool\<close>

text \<open>
  A score is a Python \<^verbatim>\<open>float\<close>, or the \<^verbatim>\<open>int\<close> zero that \<^verbatim>\<open>collect_score\<close>
  returns when the pattern does not match. The model leaves the float type open: a
  score is a value of any linearly ordered type \<open>'a\<close> with a zero (the \<^verbatim>\<open>int\<close>
  zero and the float zero are equal in Python and are the same value here), and the
  conversion \<^verbatim>\<open>float(text)\<close> is the parameter \<open>fl\<close> of the model, \<open>None\<close> when the
  conversion raises \<^verbatim>\<open>ValueError\<close>.
\<close>

text \<open>\<^verbatim>\<open>'GarliScore\s([-?]\d+[\.\d]+)'\<close>\<close>

definition regex_score :: "item list" where
  "regex_score = lit ''GarliScore'' @
     [One Space, GOpen, One (OneOf ''-?''), Plus Digit,
      Plus (Either (Ch (CHR ''.'')) Digit), GClose]"

definition collect_score :: "(string \<Rightarrow> 'a option) \<Rightarrow> string \<Rightarrow> error + ('a::{zero,linorder})" where
  "collect_score fl line =
     (case re_search regex_score line of
        Some g \<Rightarrow> (case fl g of Some v \<Rightarrow> Inr v | None \<Rightarrow> Inl ValueError)
      | None \<Rightarrow> Inr 0)"

text \<open>
  The module-level variables of the main loop. \<open>score = None\<close> says that the name
  \<^verbatim>\<open>score\<close> is not bound yet; \<open>score_dict\<close> keeps Python's insertion order.
\<close>

record 'a rank_state =
  score_dict :: "('a \<times> string) list"
  error_code :: int
  problem_files :: "string list"
  first_file :: bool
  lines_until_score :: nat
  score :: "'a option"

definition rank_init :: "'a rank_state" where
  "rank_init = \<lparr>score_dict = [], error_code = 0, problem_files = [],
     first_file = True, lines_until_score = 0, score = None\<rparr>"

text \<open>The inner loop \<^verbatim>\<open>for line in fin\<close>; \<open>line_num\<close> is its counter, reset for each file.\<close>

fun score_loop ::
  "(string \<Rightarrow> 'a option) \<Rightarrow> string list \<Rightarrow> nat \<Rightarrow> 'a rank_state \<Rightarrow> error + ('a::{zero,linorder}) rank_state" where
  "score_loop fl [] line_num st = Inr st"
| "score_loop fl (raw # rest) line_num st =
     (if first_file st
      then (let line = rstrip raw
            in if contains ''GarliScore'' line
               then (case collect_score fl line of
                       Inl e \<Rightarrow> Inl e
                     | Inr v \<Rightarrow> Inr (st\<lparr>score := Some v, first_file := False\<rparr>))
               else score_loop fl rest line_num
                      (st\<lparr>lines_until_score := lines_until_score st + 1\<rparr>))
      else if line_num = lines_until_score st
           then (case collect_score fl (rstrip raw) of
                   Inl e \<Rightarrow> Inl e
                 | Inr v \<Rightarrow> Inr (st\<lparr>score := Some v\<rparr>))
           else score_loop fl rest (line_num + 1) st)"

text \<open>The test \<^verbatim>\<open>if score == 0\<close> after the inner loop; reading an unbound name raises.\<close>

definition classify :: "string \<Rightarrow> ('a::{zero,linorder}) rank_state \<Rightarrow> error + 'a rank_state" where
  "classify filename st =
     (case score st of
        None \<Rightarrow> Inl NameError
      | Some v \<Rightarrow>
          (if v = 0
           then Inr (st\<lparr>error_code := 1, problem_files := problem_files st @ [filename]\<rparr>)
           else Inr (st\<lparr>score_dict := AList.update v filename (score_dict st)\<rparr>)))"

definition process_file ::
  "(string \<Rightarrow> 'a option) \<Rightarrow> string \<times> string list \<Rightarrow> 'a rank_state \<Rightarrow> error + ('a::{zero,linorder}) rank_state" where
  "process_file fl f st =
     (case score_loop fl (snd f) 0 st of
        Inl e \<Rightarrow> Inl e
      | Inr st' \<Rightarrow> classify (fst f) st')"

fun main_loop ::
  "(string \<Rightarrow> 'a option) \<Rightarrow> (string \<times> string list) list \<Rightarrow> 'a rank_state \<Rightarrow> error + ('a::{zero,linorder}) rank_state" where
  "main_loop fl [] st = Inr st"
| "main_loop fl (f # files) st =
     (case process_file fl f st of
        Inl e \<Rightarrow> Inl e
      | Inr st' \<Rightarrow> main_loop fl files st')"

text \<open>
  The output file is a list of lines: the header text, then \<open>Entry gs name\<close> for the
  line \<^verbatim>\<open>'%s: %s \n' % (gs, name)\<close>.
\<close>

datatype 'a out_line = Header string | Entry 'a string

definition header_text :: string where
  "header_text = ''### RANK OF GARLI SCORES (highest to lowest) ###'' @ [CHR 0x0A, CHR 0x0A] @
     '' Score:'' @ [CHR 0x09] @ ''filename '' @ [CHR 0x0A]"

fun write_entries :: "('a \<times> string) list \<Rightarrow> 'a list \<Rightarrow> error + 'a out_line list" where
  "write_entries d [] = Inr []"
| "write_entries d (gs # rest) =
     (case map_of d gs of
        None \<Rightarrow> Inl KeyError
      | Some name \<Rightarrow>
          (case write_entries d rest of
             Inl e \<Rightarrow> Inl e
           | Inr ls \<Rightarrow> Inr (Entry gs name # ls)))"

text \<open>\<^verbatim>\<open>sorted(score_dict, reverse = True)\<close>: the keys of the dictionary, largest first.\<close>

definition sorted_desc :: "('a::linorder \<times> string) list \<Rightarrow> 'a list" where
  "sorted_desc d = rev (sort (map fst d))"

definition make_out_file :: "('a::linorder \<times> string) list \<Rightarrow> error + 'a out_line list" where
  "make_out_file d =
     (case write_entries d (sorted_desc d) of
        Inl e \<Rightarrow> Inl e
      | Inr ls \<Rightarrow> Inr (Header header_text # ls))"

text \<open>
  The outcome of a run: the printed list of problem files, or the written file
  \<^verbatim>\<open>garli_scores.txt\<close>. The input is the directory listing in the order
  \<^verbatim>\<open>os.listdir\<close> gives it, each name with the lines of that file.
\<close>

datatype 'a run_result = ProblemReport "string list" | ScoresFile "'a out_line list"

definition best_tre_files :: "(string \<times> string list) list \<Rightarrow> (string \<times> string list) list" where
  "best_tre_files listing = filter (\<lambda>f. endswith ''.best.tre'' (fst f)) listing"

definition report :: "('a::{zero,linorder}) rank_state \<Rightarrow> error + 'a run_result" where
  "report st =
     (if error_code st = 1 then Inr (ProblemReport (problem_files st))
      else (case make_out_file (score_dict st) of
              Inl e \<Rightarrow> Inl e
            | Inr ls \<Rightarrow> Inr (ScoresFile ls)))"

definition post_garli ::
  "(string \<Rightarrow> 'a option) \<Rightarrow> (string \<times> string list) list \<Rightarrow> error + ('a::{zero,linorder}) run_result" where
  "post_garli fl listing =
     (case main_loop fl (best_tre_files listing) rank_init of
        Inl e \<Rightarrow> Inl e
      | Inr st \<Rightarrow> report st)"

text \<open>
  A concrete \<^verbatim>\<open>float\<close> for evaluation, on the texts the score pattern can capture
  (a sign, digits and dots): the exact decimal value, where CPython rounds that
  value to the nearest double. More than one dot, or a leading question mark, is
  a \<^verbatim>\<open>ValueError\<close>.
\<close>

definition unsigned_decimal :: "string \<Rightarrow> rat option" where
  "unsigned_decimal s =
     (let ip = takeWhile py_isdecimal s;
          r = dropWhile py_isdecimal s;
          fp = (case r of [] \<Rightarrow> Some [] | c # cs \<Rightarrow> if c = CHR ''.'' then Some cs else None)
      in case fp of
           None \<Rightarrow> None
         | Some f \<Rightarrow>
             (if list_all py_isdecimal f \<and> (ip \<noteq> [] \<or> f \<noteq> [])
              then Some (of_int (digits_val (ip @ f)) / 10 ^ length f)
              else None))"

definition decimal_float :: "string \<Rightarrow> rat option" where
  "decimal_float s =
     (case s of
        [] \<Rightarrow> None
      | c # cs \<Rightarrow>
          (if c = CHR ''-'' then map_option uminus (unsigned_decimal cs)
           else if c = CHR ''+'' then unsigned_decimal cs
           else unsigned_decimal s))"

section \<open>Predicates used in the statements\<close>

fun is_str :: "pyval \<Rightarrow> bool" where
  "is_str (PStr s) = True"
| "is_str (PInt i) = False"

text \<open>A field of \<^verbatim>\<open>process_garli\<close> that has been found holds the captured text.\<close>

definition garli_captured :: "garli_state \<Rightarrow> bool" where
  "garli_captured st =
     ((have_bootreps st \<longrightarrow> is_str (bootreps st)) \<and>
      (have_searchreps st \<longrightarrow> is_str (searchreps st)) \<and>
      (have_availmem st \<longrightarrow> is_str (availmem st)))"







text \<open>The line that \<^verbatim>\<open>process_migrate_parm\<close> looks for.\<close>

definition is_replicate_line :: "string \<Rightarrow> bool" where
  "is_replicate_line l = contains ''replicate=YES'' (rstrip l)"




text \<open>The ranking tool: a file with a line that contains the text GarliScore.\<close>

definition has_score_line :: "string list \<Rightarrow> bool" where
  "has_score_line ls = (\<exists>l\<in>set ls. contains ''GarliScore'' (rstrip l))"

text \<open>What the main loop keeps true of its variables.\<close>

definition rank_inv :: "('a::{zero,linorder}) rank_state \<Rightarrow> bool" where
  "rank_inv st =
     ((error_code st = 1 \<longleftrightarrow> problem_files st \<noteq> []) \<and>
      distinct (map fst (score_dict st)) \<and>
      (\<not> first_file st \<longrightarrow> score st \<noteq> None))"

text \<open>
  The three best-tree files of claim C3, with the score line at the same offset and
  the scores 12.3, 45.6 and -7.8, and a directory of three best-tree files with
  negative scores beside a file of another name.
\<close>

definition three_files :: "(string \<times> string list) list" where
  "three_files =
     [(''a.best.tre'', [''#NEXUS'', ''tree best = [!GarliScore 12.3][&U] (a,b);'']),
      (''b.best.tre'', [''#NEXUS'', ''tree best = [!GarliScore 45.6][&U] (a,b);'']),
      (''c.best.tre'', [''#NEXUS'', ''tree best = [!GarliScore -7.8][&U] (a,b);''])]"

definition negative_files :: "(string \<times> string list) list" where
  "negative_files =
     [(''a.best.tre'', [''#NEXUS'', ''tree best = [!GarliScore -12.3][&U] (a,b);'']),
      (''readme.txt'', [''GarliScore -1.0'']),
      (''b.best.tre'', [''#NEXUS'', ''tree best = [!GarliScore -4.56][&U] (a,b);'']),
      (''c.best.tre'', [''#NEXUS'', ''tree best = [!GarliScore -7.8][&U] (a,b);''])]"






section \<open>Facts about the matcher\<close>


lemma rmatch_cap_extends:
  "rmatch p b r cap s = Some x \<Longrightarrow> \<exists>t. fst x = cap @ t"
proof (induction p b r cap s arbitrary: x rule: rmatch.induct)
  case (5 k "is" bol rec cap c cs)
  then show ?case
    by (auto split: if_splits option.splits)
next
  case (11 w ws "is" bol rec cap s)
  then show ?case
    by (auto split: if_splits option.splits)
qed (auto split: if_splits)

lemma rmatch_One:
  "rmatch (One k # is) b r cap s = Some x \<Longrightarrow>
     \<exists>c cs. s = c # cs \<and> cc_ok k c \<and> rmatch is False r (if r then cap @ [c] else cap) cs = Some x"
  by (cases s) (auto split: if_splits)

lemma rmatch_lit:
  "rmatch (lit w @ is) b r cap s = Some x \<Longrightarrow> w \<noteq> [] \<Longrightarrow>
     \<exists>s'. rmatch is False r (if r then cap @ w else cap) s' = Some x"
proof (induction w arbitrary: b cap s)
  case Nil
  then show ?case by simp
next
  case (Cons a w)
  from Cons.prems(1) have "rmatch (One (Ch a) # (lit w @ is)) b r cap s = Some x"
    by (simp add: lit_def)
  from rmatch_One [OF this] obtain c cs where
    c: "cc_ok (Ch a) c" and
    m: "rmatch (lit w @ is) False r (if r then cap @ [c] else cap) cs = Some x"
    by blast
  from c have ca: "c = a" by simp
  show ?case
  proof (cases "w = []")
    case True
    with m ca have "rmatch is False r (if r then cap @ (a # w) else cap) cs = Some x"
      by (cases r) (simp_all add: lit_def)
    then show ?thesis by blast
  next
    case False
    from Cons.IH [OF m False] obtain s' where
      "rmatch is False r (if r then (if r then cap @ [c] else cap) @ w else (if r then cap @ [c] else cap)) s' = Some x"
      by blast
    with ca have "rmatch is False r (if r then cap @ (a # w) else cap) s' = Some x"
      by (cases r) simp_all
    then show ?thesis by blast
  qed
qed






















section \<open>process\_garli: the branch for zero bootstrap replicates\<close>

lemma garli_line_captured: "garli_captured st \<Longrightarrow> garli_captured (garli_line raw st)"
  by (auto simp: garli_captured_def garli_line_def Let_def split: option.splits)

lemma garli_loop_captured: "garli_captured st \<Longrightarrow> garli_captured (garli_loop ls st)"
  by (induction ls arbitrary: st) (simp_all add: garli_line_captured)

lemma garli_init_captured: "garli_captured garli_init"
  by (simp add: garli_captured_def garli_init_def)

lemma is_str_not_zero: "is_str v \<Longrightarrow> v \<noteq> PInt 0"
  by (cases v) simp_all

text \<open>
  Claim C1. The claim: when all three fields are found and the captured
  bootstrapreps value is 0, \<^verbatim>\<open>process_garli\<close> returns the captured searchreps value
  as number of runs and resets searchreps to 1. The code does not: a found field
  holds captured text, the test \<^verbatim>\<open>bootreps == 0\<close> compares that text with an
  integer and is false for every file, so whenever all three fields are found the
  number of runs is the captured bootstrapreps text, bootstrapreps is reset to 1 and
  searchreps keeps its captured text, with error code 0.
\<close>

theorem garli_zero_branch_never_taken:
  assumes "st = garli_loop file garli_init"
    and "have_bootreps st" and "have_searchreps st" and "have_availmem st"
  shows "is_str (bootreps st) \<and> is_str (searchreps st) \<and> is_str (availmem st) \<and>
         process_garli file = (0, bootreps st, PInt 1, searchreps st, availmem st)"
proof -
  have cap: "garli_captured st"
    using assms(1) garli_init_captured garli_loop_captured by simp
  with assms have strs: "is_str (bootreps st)" "is_str (searchreps st)" "is_str (availmem st)"
    by (simp_all add: garli_captured_def)
  have "bootreps st \<noteq> PInt 0"
    using strs(1) by (rule is_str_not_zero)
  with assms have "process_garli file = (0, bootreps st, PInt 1, searchreps st, availmem st)"
    by (simp add: process_garli_def Let_def)
  with strs show ?thesis by simp
qed

lemma garli_example_loop:
  "garli_loop [''bootstrapreps=0'', ''searchreps=5'', ''availablememory=1024''] garli_init =
     \<lparr>bootreps = PStr ''0'', searchreps = PStr ''5'', availmem = PStr ''1024'',
      have_bootreps = True, have_searchreps = True, have_availmem = True\<rparr>"
  by code_simp

text \<open>The file of the claim: number of runs is the text 0, searchreps stays 5.\<close>

theorem garli_zero_bootstrap_witness:
  "process_garli [''bootstrapreps=0'', ''searchreps=5'', ''availablememory=1024''] =
     (0, PStr ''0'', PInt 1, PStr ''5'', PStr ''1024'')"
  using garli_zero_branch_never_taken [OF garli_example_loop [symmetric]]
  by simp

section \<open>process\_beast2: the partition count\<close>









section \<open>process\_bayes: the first control line\<close>








section \<open>process\_migrate\_parm: the replicate line\<close>

lemma split_on_no_sep: "sep \<notin> set s \<Longrightarrow> split_on sep s = [s]"
  by (induction s) auto

lemma split_on_one_sep:
  "sep \<notin> set a \<Longrightarrow> sep \<notin> set b \<Longrightarrow> split_on sep (a @ sep # b) = [a, b]"
  by (induction a) (auto simp: split_on_no_sep)

lemma split_on_length: "length (split_on sep s) = Suc (count_list s sep)"
  by (induction s) (auto split: list.splits)

lemma migrate_parm_loop_before:
  "\<forall>l\<in>set pre. \<not> is_replicate_line l \<Longrightarrow>
     migrate_parm_loop (pre @ rest) = migrate_parm_loop rest"
  by (induction pre) (simp_all add: is_replicate_line_def Let_def)

lemma not_two_pieces:
  "length xs \<noteq> 2 \<Longrightarrow>
     (case xs of [p1, num_reps] \<Rightarrow> Inr (PStr num_reps) | _ \<Rightarrow> Inl ValueError) = Inl ValueError"
  by (auto split: list.splits)

text \<open>
  Claim C4, as stated, fails: the claim splits the replicate line on its first
  colon, the code splits it on every colon and unpacks exactly two pieces. A
  replicate line with two colons raises \<^verbatim>\<open>ValueError\<close>; the claim gives the
  count 10:20 and error flag 1.
\<close>

theorem migrate_parm_two_colons_counterexample:
  "process_migrate_parm [''replicate=YES:10:20''] = Inl ValueError \<and>
   process_migrate_parm [''replicate=YES:10:20''] \<noteq> Inr (1, PStr ''10:20'')"
  by code_simp

text \<open>
  Claim C4, amended. For every migrate parameter file the scan stops at the first
  line that contains \<^verbatim>\<open>replicate=YES\<close> (read with trailing whitespace removed).
  When that line has exactly one colon, the replicate count is the text after the
  colon and the error flag is 1 exactly when that text is not a non-empty string of
  digit characters. When that line has no colon or more than one, the call raises
  \<^verbatim>\<open>ValueError\<close>. When no line contains \<^verbatim>\<open>replicate=YES\<close>, the replicate
  count is the default 1 and the error flag is 0.
\<close>

theorem migrate_parm_single_colon:
  "((\<forall>l\<in>set ls. \<not> is_replicate_line l) \<longrightarrow> process_migrate_parm ls = Inr (0, PInt 1)) \<and>
   ((\<forall>l\<in>set pre. \<not> is_replicate_line l) \<and> is_replicate_line r \<and>
      rstrip r = p1 @ CHR '':'' # v \<and> CHR '':'' \<notin> set p1 \<and> CHR '':'' \<notin> set v \<longrightarrow>
        process_migrate_parm (pre @ r # post) = Inr ((if isdigit v then 0 else 1), PStr v)) \<and>
   ((\<forall>l\<in>set pre. \<not> is_replicate_line l) \<and> is_replicate_line r \<and>
      count_list (rstrip r) (CHR '':'') \<noteq> 1 \<longrightarrow>
        process_migrate_parm (pre @ r # post) = Inl ValueError)"
proof (intro conjI impI)
  assume "\<forall>l\<in>set ls. \<not> is_replicate_line l"
  then have "migrate_parm_loop ls = migrate_parm_loop []"
    using migrate_parm_loop_before [of ls "[]"] by simp
  then show "process_migrate_parm ls = Inr (0, PInt 1)"
    by (simp add: process_migrate_parm_def)
next
  assume a: "(\<forall>l\<in>set pre. \<not> is_replicate_line l) \<and> is_replicate_line r \<and>
      rstrip r = p1 @ CHR '':'' # v \<and> CHR '':'' \<notin> set p1 \<and> CHR '':'' \<notin> set v"
  then have "migrate_parm_loop (pre @ r # post) = migrate_parm_loop (r # post)"
    by (simp add: migrate_parm_loop_before)
  also have "\<dots> = Inr (PStr v)"
  proof -
    from a have c: "contains ''replicate=YES'' (rstrip r)"
      unfolding is_replicate_line_def by blast
    from a have "rstrip r = p1 @ CHR '':'' # v" "CHR '':'' \<notin> set p1" "CHR '':'' \<notin> set v"
      by blast+
    then have "split_on (CHR '':'') (rstrip r) = [p1, v]"
      by (simp add: split_on_one_sep)
    with c show ?thesis by (simp add: Let_def)
  qed
  finally show "process_migrate_parm (pre @ r # post) = Inr ((if isdigit v then 0 else 1), PStr v)"
    by (simp add: process_migrate_parm_def)
next
  assume a: "(\<forall>l\<in>set pre. \<not> is_replicate_line l) \<and> is_replicate_line r \<and>
      count_list (rstrip r) (CHR '':'') \<noteq> 1"
  then have "migrate_parm_loop (pre @ r # post) = migrate_parm_loop (r # post)"
    by (simp add: migrate_parm_loop_before)
  also have "\<dots> = Inl ValueError"
  proof -
    from a have c: "contains ''replicate=YES'' (rstrip r)"
      unfolding is_replicate_line_def by blast
    from a have "count_list (rstrip r) (CHR '':'') \<noteq> 1"
      by blast
    then have "length (split_on (CHR '':'') (rstrip r)) \<noteq> 2"
      by (simp add: split_on_length)
    with c show ?thesis by (simp add: Let_def not_two_pieces)
  qed
  finally show "process_migrate_parm (pre @ r # post) = Inl ValueError"
    by (simp add: process_migrate_parm_def)
qed

lemma migrate_parm_example_pre:
  "\<forall>l\<in>set [''# Parmfile for Migrate'', ''replicate=NO'']. \<not> is_replicate_line l"
  by code_simp

lemma migrate_parm_example_line:
  "is_replicate_line ''replicate=YES:LastChains  '' \<and>
   rstrip ''replicate=YES:LastChains  '' = ''replicate=YES'' @ CHR '':'' # ''LastChains'' \<and>
   CHR '':'' \<notin> set ''replicate=YES'' \<and> CHR '':'' \<notin> set ''LastChains'' \<and>
   \<not> isdigit ''LastChains''"
  by code_simp

text \<open>
  A file whose first replicate line has one colon and the count LastChains, and the
  same file cut before that line.
\<close>

theorem migrate_parm_single_colon_witness:
  "process_migrate_parm ([''# Parmfile for Migrate'', ''replicate=NO''] @
      ''replicate=YES:LastChains  '' # [''replicate=YES:3'']) = Inr (1, PStr ''LastChains'') \<and>
   process_migrate_parm [''# Parmfile for Migrate'', ''replicate=NO''] = Inr (0, PInt 1)"
  using migrate_parm_single_colon [of "[''# Parmfile for Migrate'', ''replicate=NO'']"
      "[''# Parmfile for Migrate'', ''replicate=NO'']"
      "''replicate=YES:LastChains  ''" "''replicate=YES''" "''LastChains''" "[''replicate=YES:3'']"]
    migrate_parm_example_pre migrate_parm_example_line
  by simp

section \<open>process\_migrate\_infile: the first line\<close>

text \<open>
  Claim C5, as stated, fails: the code reads the first line of the file, whatever
  it holds, and indexes its second field. A file that starts with a blank line
  raises \<^verbatim>\<open>IndexError\<close>; the claim reads the first non-trivial line and gives
  the locus count 3 and error flag 0.
\<close>

theorem migrate_infile_blank_first_line_counterexample:
  "process_migrate_infile ['''', ''2 3 title''] = Inl IndexError \<and>
   process_migrate_infile ['''', ''2 3 title''] \<noteq> Inr (0, PStr ''3'')"
  by code_simp

text \<open>
  Claim C5, amended. For every migrate input file, \<^verbatim>\<open>process_migrate_infile\<close>
  reads only the first line. When that line has at least two whitespace-delimited
  fields, the locus count is the second field, all later lines are ignored, and the
  error flag is 1 exactly when that field is not a non-empty string of digit
  characters. When the first line has fewer than two fields the call raises
  \<^verbatim>\<open>IndexError\<close>. A file without lines gives the default count 1 and error flag 0.
\<close>

theorem migrate_infile_first_line:
  "process_migrate_infile [] = Inr (0, PInt 1) \<and>
   (pysplit (strip l) = w0 # w1 # ws \<longrightarrow>
      process_migrate_infile (l # rest) = Inr ((if isdigit w1 then 0 else 1), PStr w1)) \<and>
   (length (pysplit (strip l)) < 2 \<longrightarrow> process_migrate_infile (l # rest) = Inl IndexError)"
  by (simp add: process_migrate_infile_def migrate_infile_loop_def Let_def)

lemma migrate_infile_example_split:
  "pysplit (strip ''  2   3x Example data '') = ''2'' # ''3x'' # [''Example'', ''data''] \<and>
   \<not> isdigit ''3x''"
  by code_simp

text \<open>A first line with the fields 2 and 3x: the count is 3x, the error flag 1.\<close>

theorem migrate_infile_first_line_witness:
  "process_migrate_infile (''  2   3x Example data '' # [''7 8 second'']) = Inr (1, PStr ''3x'')"
  using migrate_infile_first_line [of "''  2   3x Example data ''" "''2''" "''3x''"
      "[''Example'', ''data'']" "[''7 8 second'']"]
    migrate_infile_example_split
  by simp

section \<open>process\_beast: the partition and pattern counts\<close>

lemma set_codon_counts [simp]:
  "nu_partitions (set_codon l st) = nu_partitions st"
  "pattern_count (set_codon l st) = pattern_count st"
  by (simp_all add: set_codon_def)

lemma set_datatype_counts [simp]:
  "nu_partitions (set_datatype l st) = nu_partitions st"
  "pattern_count (set_datatype l st) = pattern_count st"
  by (simp_all add: set_datatype_def)















section \<open>post\_garli.py: the main loop\<close>

lemma score_loop_keeps:
  "score_loop fl ls n st = Inr st' \<Longrightarrow>
     score_dict st' = score_dict st \<and> error_code st' = error_code st \<and>
     problem_files st' = problem_files st"
  by (induction fl ls n st rule: score_loop.induct)
     (auto simp: Let_def split: if_splits sum.splits)

lemma score_loop_bound:
  "score_loop fl ls n st = Inr st' \<Longrightarrow> (\<not> first_file st \<longrightarrow> score st \<noteq> None) \<Longrightarrow>
     (\<not> first_file st' \<longrightarrow> score st' \<noteq> None)"
  by (induction fl ls n st rule: score_loop.induct)
     (auto simp: Let_def split: if_splits sum.splits)

lemma score_loop_short:
  "\<not> first_file st \<Longrightarrow> n + length ls \<le> lines_until_score st \<Longrightarrow> score_loop fl ls n st = Inr st"
  by (induction ls arbitrary: n) simp_all

lemma score_loop_no_score_line:
  "first_file st \<Longrightarrow> \<not> has_score_line ls \<Longrightarrow>
     score_loop fl ls n st = Inr (st\<lparr>lines_until_score := lines_until_score st + length ls\<rparr>)"
  by (induction ls arbitrary: st) (simp_all add: has_score_line_def Let_def)

lemma classify_inv: "rank_inv st \<Longrightarrow> classify name st = Inr st' \<Longrightarrow> rank_inv st'"
  by (auto simp: rank_inv_def classify_def distinct_update split: option.splits if_splits)

lemma score_loop_inv: "rank_inv st \<Longrightarrow> score_loop fl ls n st = Inr st' \<Longrightarrow> rank_inv st'"
  using score_loop_keeps [of fl ls n st st'] score_loop_bound [of fl ls n st st']
  by (simp add: rank_inv_def)

lemma process_file_inv: "rank_inv st \<Longrightarrow> process_file fl f st = Inr st' \<Longrightarrow> rank_inv st'"
  by (auto simp: process_file_def split: sum.splits dest: score_loop_inv classify_inv)

lemma main_loop_inv: "rank_inv st \<Longrightarrow> main_loop fl files st = Inr st' \<Longrightarrow> rank_inv st'"
proof (induction files arbitrary: st)
  case Nil
  then show ?case by simp
next
  case (Cons f files)
  from Cons.prems(2) obtain st1 where
    s1: "process_file fl f st = Inr st1" and s2: "main_loop fl files st1 = Inr st'"
    by (auto split: sum.splits)
  from process_file_inv [OF Cons.prems(1) s1] have "rank_inv st1" .
  from Cons.IH [OF this s2] show ?case .
qed

lemma rank_init_inv: "rank_inv rank_init"
  by (simp add: rank_inv_def rank_init_def)

subsection \<open>A first file without a score line\<close>

text \<open>
  Claim C2. The claim: a first-processed best-tree file without a GarliScore line
  leaves the cached offset at its line count and gets the default score 0, so it
  is listed as a problem file. The code does not: the offset does reach the line
  count, but no statement of the loop binds \<^verbatim>\<open>score\<close> for that file, and the test
  \<^verbatim>\<open>if score == 0\<close> after the loop raises \<^verbatim>\<open>NameError\<close>. The run stops there:
  no problem list and no output file.
\<close>

theorem first_file_without_score_line:
  "(first_file st \<and> score st = None \<and> \<not> has_score_line ls \<longrightarrow>
      score_loop fl ls 0 st = Inr (st\<lparr>lines_until_score := lines_until_score st + length ls\<rparr>) \<and>
      process_file fl (name, ls) st = Inl NameError) \<and>
   (best_tre_files listing = (name, ls) # files \<and> \<not> has_score_line ls \<longrightarrow>
      score_loop fl ls 0 rank_init = Inr (rank_init\<lparr>lines_until_score := length ls\<rparr>) \<and>
      post_garli fl listing = Inl NameError)"
proof (intro conjI impI)
  assume a: "first_file st \<and> score st = None \<and> \<not> has_score_line ls"
  then show s: "score_loop fl ls 0 st = Inr (st\<lparr>lines_until_score := lines_until_score st + length ls\<rparr>)"
    by (simp add: score_loop_no_score_line)
  from a s show "process_file fl (name, ls) st = Inl NameError"
    by (simp add: process_file_def classify_def)
next
  assume a: "best_tre_files listing = (name, ls) # files \<and> \<not> has_score_line ls"
  then show s: "score_loop fl ls 0 rank_init = Inr (rank_init\<lparr>lines_until_score := length ls\<rparr>)"
    using score_loop_no_score_line [of rank_init ls fl 0] by (simp add: rank_init_def)
  then have "process_file fl (name, ls) rank_init = Inl NameError"
    by (simp add: process_file_def classify_def rank_init_def)
  with a show "post_garli fl listing = Inl NameError"
    by (simp add: post_garli_def)
qed

lemma no_score_example:
  "best_tre_files [(''notes.txt'', [''GarliScore -1.5'']),
      (''run1.best.tre'', [''#NEXUS'', ''begin trees;'', ''end;''])] =
     (''run1.best.tre'', [''#NEXUS'', ''begin trees;'', ''end;'']) # [] \<and>
   \<not> has_score_line [''#NEXUS'', ''begin trees;'', ''end;'']"
  by code_simp

text \<open>A directory whose only best-tree file has three lines and no score line.\<close>

theorem first_file_without_score_line_witness:
  "post_garli decimal_float [(''notes.txt'', [''GarliScore -1.5'']),
      (''run1.best.tre'', [''#NEXUS'', ''begin trees;'', ''end;''])] = Inl NameError \<and>
   score_loop decimal_float [''#NEXUS'', ''begin trees;'', ''end;''] 0 rank_init =
     Inr (rank_init\<lparr>lines_until_score := 3\<rparr>)"
  using first_file_without_score_line [of rank_init "[''#NEXUS'', ''begin trees;'', ''end;'']"
      decimal_float "''run1.best.tre''"
      "[(''notes.txt'', [''GarliScore -1.5'']),
        (''run1.best.tre'', [''#NEXUS'', ''begin trees;'', ''end;''])]" "[]"]
    no_score_example
  by simp

subsection \<open>Scores without a sign\<close>

lemma regex_score_sign:
  assumes "rmatch regex_score b False [] s = Some x"
  shows "\<exists>c t. fst x = c # t \<and> (c = CHR ''-'' \<or> c = CHR ''?'')"
proof -
  from assms have "rmatch (lit ''GarliScore'' @
      [One Space, GOpen, One (OneOf ''-?''), Plus Digit,
       Plus (Either (Ch (CHR ''.'')) Digit), GClose]) b False [] s = Some x"
    by (simp add: regex_score_def)
  from rmatch_lit [OF this] obtain s1 where
    m1: "rmatch [One Space, GOpen, One (OneOf ''-?''), Plus Digit,
        Plus (Either (Ch (CHR ''.'')) Digit), GClose] False False [] s1 = Some x"
    by auto
  from rmatch_One [OF m1] obtain s2 where
    "rmatch [GOpen, One (OneOf ''-?''), Plus Digit,
        Plus (Either (Ch (CHR ''.'')) Digit), GClose] False False [] s2 = Some x"
    by auto
  then have m3: "rmatch [One (OneOf ''-?''), Plus Digit,
        Plus (Either (Ch (CHR ''.'')) Digit), GClose] False True [] s2 = Some x"
    by simp
  from rmatch_One [OF m3] obtain c cs where c: "cc_ok (OneOf ''-?'') c"
    and m: "rmatch [Plus Digit, Plus (Either (Ch (CHR ''.'')) Digit), GClose] False True [c] cs = Some x"
    by auto
  from rmatch_cap_extends [OF m] c show ?thesis by auto
qed

lemma search_score_sign:
  "search_from regex_score b s = Some g \<Longrightarrow> \<exists>c t. g = c # t \<and> (c = CHR ''-'' \<or> c = CHR ''?'')"
proof (induction s arbitrary: b)
  case Nil
  then obtain x where "rmatch regex_score b False [] [] = Some x" "g = fst x"
    by auto
  with regex_score_sign [of b "[]" x] show ?case by simp
next
  case (Cons a s)
  show ?case
  proof (cases "rmatch regex_score b False [] (a # s)")
    case None
    with Cons.prems have "search_from regex_score False s = Some g" by simp
    from Cons.IH [OF this] show ?thesis .
  next
    case (Some x)
    with Cons.prems have "g = fst x" by simp
    with regex_score_sign [OF Some] show ?thesis by simp
  qed
qed

lemma digit_val_nonneg: "py_isdecimal c \<Longrightarrow> 0 \<le> digit_val c"
  by (auto simp: py_isdecimal_def digit_val_def)

lemma digits_val_nonneg_aux:
  "list_all py_isdecimal s \<Longrightarrow> 0 \<le> acc \<Longrightarrow> 0 \<le> foldl (\<lambda>acc c. 10 * acc + digit_val c) acc s"
  by (induction s arbitrary: acc) (auto simp: digit_val_nonneg)

lemma digits_val_nonneg: "list_all py_isdecimal s \<Longrightarrow> 0 \<le> digits_val s"
  by (simp add: digits_val_def digits_val_nonneg_aux)

lemma takeWhile_decimal: "list_all py_isdecimal (takeWhile py_isdecimal s)"
  by (induction s) simp_all

lemma unsigned_decimal_nonneg:
  assumes "unsigned_decimal s = Some v"
  shows "0 \<le> v"
proof -
  let ?ip = "takeWhile py_isdecimal s"
  from assms obtain f where f: "list_all py_isdecimal f"
    and v: "v = of_int (digits_val (?ip @ f)) / 10 ^ length f"
    by (simp add: unsigned_decimal_def Let_def split: option.splits if_splits)
  from f have "list_all py_isdecimal (?ip @ f)"
    by (simp add: takeWhile_decimal)
  then have "0 \<le> digits_val (?ip @ f)"
    by (rule digits_val_nonneg)
  with v show ?thesis by simp
qed

lemma unsigned_decimal_question: "unsigned_decimal (CHR ''?'' # t) = None"
  by (simp add: unsigned_decimal_def py_isdecimal_def)

lemma no_positive_score:
  "collect_score decimal_float line = Inr v \<Longrightarrow> v \<le> 0"
proof (cases "re_search regex_score line")
  case None
  assume "collect_score decimal_float line = Inr v"
  with None show ?thesis by (simp add: collect_score_def)
next
  case (Some g)
  assume a: "collect_score decimal_float line = Inr v"
  from Some obtain c t where g: "g = c # t" and c: "c = CHR ''-'' \<or> c = CHR ''?''"
    using search_score_sign [of True line g] by (auto simp: re_search_def)
  from a Some have f: "decimal_float g = Some v"
    by (simp add: collect_score_def split: option.splits)
  from c show ?thesis
  proof
    assume "c = CHR ''-''"
    with f g obtain u where "unsigned_decimal t = Some u" "v = - u"
      by (auto simp: decimal_float_def)
    with unsigned_decimal_nonneg [of t u] show ?thesis by simp
  next
    assume "c = CHR ''?''"
    with f g show ?thesis
      by (simp add: decimal_float_def unsigned_decimal_question)
  qed
qed

text \<open>
  Claim C3. The claim: three best-tree files with the scores 12.3, 45.6 and -7.8
  at the same offset give an output file that lists the three names by descending
  score. The code does not: the character class \<^verbatim>\<open>[-?]\<close> of the pattern needs a
  minus sign or a question mark before the digits, so the lines with 12.3 and 45.6
  do not match, both files get the score 0 and are reported as problem files, and
  no output file is written. No line at all yields a positive score.
\<close>

theorem unsigned_scores_not_ranked:
  "(collect_score decimal_float line = Inr v \<longrightarrow> v \<le> 0) \<and>
   collect_score decimal_float ''tree best = [!GarliScore 12.3][&U] (a,b);'' = Inr 0 \<and>
   collect_score decimal_float ''tree best = [!GarliScore 45.6][&U] (a,b);'' = Inr 0 \<and>
   post_garli decimal_float three_files = Inr (ProblemReport [''a.best.tre'', ''b.best.tre''])"
proof (intro conjI impI)
  assume "collect_score decimal_float line = Inr v"
  then show "v \<le> 0" by (rule no_positive_score)
next
  show "collect_score decimal_float ''tree best = [!GarliScore 12.3][&U] (a,b);'' = Inr 0"
    by code_simp
next
  show "collect_score decimal_float ''tree best = [!GarliScore 45.6][&U] (a,b);'' = Inr 0"
    by code_simp
next
  show "post_garli decimal_float three_files = Inr (ProblemReport [''a.best.tre'', ''b.best.tre''])"
    by code_simp
qed

lemma signed_score_example:
  "collect_score decimal_float ''tree best = [!GarliScore -7.8][&U] (a,b);'' = Inr (- 78 / 10)"
  by code_simp

text \<open>The line with the score -7.8 does match, and its score is not positive.\<close>

theorem unsigned_scores_not_ranked_witness:
  "collect_score decimal_float ''tree best = [!GarliScore -7.8][&U] (a,b);'' = Inr (- 78 / 10) \<and>
   (- 78 / 10 :: rat) \<le> 0"
  using unsigned_scores_not_ranked [of "''tree best = [!GarliScore -7.8][&U] (a,b);''" "- 78 / 10"]
    signed_score_example
  by simp

subsection \<open>The report\<close>









lemma negative_files_run:
  "post_garli decimal_float negative_files =
     Inr (ScoresFile [Header header_text, Entry (- 456 / 100) ''b.best.tre'',
       Entry (- 78 / 10) ''c.best.tre'', Entry (- 123 / 10) ''a.best.tre''])"
  by code_simp



subsection \<open>A file shorter than the cached offset\<close>

lemma score_loop_flag_on:
  "score_loop fl ls n st = Inr st' \<Longrightarrow> first_file st' \<Longrightarrow> first_file st \<and> score st' = score st"
  by (induction fl ls n st rule: score_loop.induct)
     (auto simp: Let_def split: if_splits sum.splits)

lemma score_loop_flag_off:
  "score_loop fl ls n st = Inr st' \<Longrightarrow> \<not> first_file st \<Longrightarrow> \<not> first_file st'"
  using score_loop_flag_on by blast

lemma classify_flag: "classify name st = Inr st' \<Longrightarrow> first_file st' = first_file st"
  by (auto simp: classify_def split: option.splits if_splits)

lemma process_file_flag_off:
  "process_file fl f st = Inr st' \<Longrightarrow> \<not> first_file st \<or> score st = None \<Longrightarrow> \<not> first_file st'"
proof -
  assume a: "process_file fl f st = Inr st'" and b: "\<not> first_file st \<or> score st = None"
  from a obtain s1 where s1: "score_loop fl (snd f) 0 st = Inr s1" and c: "classify (fst f) s1 = Inr st'"
    by (auto simp: process_file_def split: sum.splits)
  from c have bound: "score s1 \<noteq> None"
    by (auto simp: classify_def split: option.splits)
  have "\<not> first_file s1"
  proof
    assume "first_file s1"
    from score_loop_flag_on [OF s1 this] b bound show False by simp
  qed
  with classify_flag [OF c] show ?thesis by simp
qed

lemma main_loop_flag_off:
  "main_loop fl files st = Inr st' \<Longrightarrow> \<not> first_file st \<Longrightarrow> \<not> first_file st'"
proof (induction files arbitrary: st)
  case Nil
  then show ?case by simp
next
  case (Cons f files)
  from Cons.prems(1) obtain s1 where
    s1: "process_file fl f st = Inr s1" and s2: "main_loop fl files s1 = Inr st'"
    by (auto split: sum.splits)
  from process_file_flag_off [OF s1] Cons.prems(2) have "\<not> first_file s1" by simp
  from Cons.IH [OF s2 this] show ?case .
qed

lemma after_first_file:
  "main_loop fl (f # files) rank_init = Inr st \<Longrightarrow> \<not> first_file st"
proof -
  assume "main_loop fl (f # files) rank_init = Inr st"
  then obtain s1 where
    s1: "process_file fl f rank_init = Inr s1" and s2: "main_loop fl files s1 = Inr st"
    by (auto split: sum.splits)
  have "score (rank_init :: 'a rank_state) = None" by (simp add: rank_init_def)
  with process_file_flag_off [OF s1] have "\<not> first_file s1" by simp
  from main_loop_flag_off [OF s2 this] show ?thesis .
qed

text \<open>
  Claim C10. For every best-tree file that is read after the score line of an
  earlier file has been found (the flag \<^verbatim>\<open>first_file\<close> is off) and that has at
  most \<open>N\<close> lines, \<open>N\<close> the cached offset, the inner loop assigns nothing: the
  state is unchanged, and the file is classified with the score left by the
  previous file, as a problem file when that score is 0 and otherwise stored in the
  dictionary under that score, where it replaces the previous file. Once the main
  loop has processed at least one file, the flag is off and \<^verbatim>\<open>score\<close> is bound,
  so every file but the first is read in such a state.
\<close>

theorem stale_score_reused:
  "(\<not> first_file st \<and> score st = Some v \<and> length ls \<le> lines_until_score st \<longrightarrow>
      score_loop fl ls 0 st = Inr st \<and>
      process_file fl (name, ls) st =
        (if v = 0
         then Inr (st\<lparr>error_code := 1, problem_files := problem_files st @ [name]\<rparr>)
         else Inr (st\<lparr>score_dict := AList.update v name (score_dict st)\<rparr>))) \<and>
   (main_loop fl (f # files) rank_init = Inr st \<longrightarrow> \<not> first_file st \<and> score st \<noteq> None)"
proof (intro conjI impI)
  assume a: "\<not> first_file st \<and> score st = Some v \<and> length ls \<le> lines_until_score st"
  then show s: "score_loop fl ls 0 st = Inr st"
    by (simp add: score_loop_short)
  from a s show "process_file fl (name, ls) st =
      (if v = 0
       then Inr (st\<lparr>error_code := 1, problem_files := problem_files st @ [name]\<rparr>)
       else Inr (st\<lparr>score_dict := AList.update v name (score_dict st)\<rparr>))"
    by (simp add: process_file_def classify_def)
next
  assume a: "main_loop fl (f # files) rank_init = Inr st"
  then show off: "\<not> first_file st"
    by (rule after_first_file)
  from a have "rank_inv st"
    using main_loop_inv [OF rank_init_inv] by blast
  with off show "score st \<noteq> None"
    by (simp add: rank_inv_def)
qed

lemma stale_example_first:
  "process_file decimal_float
      (''a.best.tre'', [''#NEXUS'', ''tree best = [!GarliScore -12.3][&U] (a,b);'']) rank_init =
     Inr \<lparr>score_dict = [(- 123 / 10, ''a.best.tre'')], error_code = 0, problem_files = [],
          first_file = False, lines_until_score = 1, score = Some (- 123 / 10)\<rparr>"
  by code_simp

text \<open>
  Two files: the second has one line, the offset is 1, and it takes the place of
  the first under the score -12.3.
\<close>

theorem stale_score_reused_witness:
  "main_loop decimal_float
     [(''a.best.tre'', [''#NEXUS'', ''tree best = [!GarliScore -12.3][&U] (a,b);'']),
      (''b.best.tre'', [''#NEXUS''])] rank_init =
     Inr \<lparr>score_dict = [(- 123 / 10, ''b.best.tre'')], error_code = 0, problem_files = [],
          first_file = False, lines_until_score = 1, score = Some (- 123 / 10)\<rparr>"
  using stale_score_reused [of
      "\<lparr>score_dict = [(- 123 / 10, ''a.best.tre'')], error_code = 0, problem_files = [],
        first_file = False, lines_until_score = 1, score = Some (- 123 / 10)\<rparr>"
      "- 123 / 10" "[''#NEXUS'']" decimal_float "''b.best.tre''"]
    stale_example_first
  by simp

end
